theory Spec2Isabelle
  imports Complex_Main
begin

section \<open>Friction-factor engine (hw5a.ff, hw5b.ffPoint)\<close>

text \<open>
  Python floats are modelled as \<^typ>\<open>real\<close>: comparisons and the shape of every
  arithmetic expression are those of the source, rounding is not modelled. The results
  below depend only on which branch is taken, on what is passed to the library calls and
  on which exceptions are raised. The source's variable \<open>Re\<close> is written \<open>Rey\<close>
  throughout (\<open>Re\<close> is the real part of a complex number in HOL).

  Two library calls are parameters of the model, since their code is not part of the
  program:
  \<^item> \<open>scipy.optimize.fsolve(func, x0)\<close>: it either raises or produces an array (the root,
    or the last iterate of an unsuccessful run) together with an integer status, which
    is 1 exactly when the iteration converged. Called as in the source (without
    \<open>full_output\<close>) only the array reaches the caller;
  \<^item> \<open>random.normalvariate(mu, sigma)\<close>: it reads and advances the process-wide
    generator, whose state is threaded explicitly.
\<close>

datatype error = ZeroDivisionError | IndexError | SolverError

record fsolve_out =
  sol_x :: "real list"
  status :: int

type_synonym solver = "(real \<Rightarrow> real) \<Rightarrow> real \<Rightarrow> error + fsolve_out"

type_synonym 'g sampler = "real \<Rightarrow> real \<Rightarrow> 'g \<Rightarrow> real \<times> 'g"

text \<open>The residual \<open>cb\<close> of the Colebrook equation, the lambda of \<open>ff\<close>.\<close>

definition cb :: "real \<Rightarrow> real \<Rightarrow> real \<Rightarrow> real" where
  "cb Rey rr f = 1 / sqrt \<bar>f\<bar> + 2.0 * log 10 ((rr / 3.7) + (2.51 / (Rey * sqrt \<bar>f\<bar>)))"

text \<open>
  \<open>ff(Rey, rr, CBEQN=False)\<close>. \<open>result[0]\<close> raises IndexError on an empty array, and
  \<open>64/Rey\<close> raises ZeroDivisionError for a Python number \<open>Rey = 0\<close>.
\<close>

definition ff :: "solver \<Rightarrow> real \<Rightarrow> real \<Rightarrow> bool \<Rightarrow> error + real" where
  "ff fsolve Rey rr CBEQN =
     (if CBEQN then
        (case fsolve (cb Rey rr) (max 0.02 0.00001) of
           Inl e \<Rightarrow> Inl e
         | Inr result \<Rightarrow>
             (case sol_x result of
                [] \<Rightarrow> Inl IndexError
              | r # _ \<Rightarrow> Inr r))
      else if Rey = 0 then Inl ZeroDivisionError
      else Inr (64 / Rey))"

text \<open>\<open>ffPoint(Rey, rr)\<close>, with the generator state \<open>g\<close> passed in and returned.\<close>

definition ffPoint ::
  "solver \<Rightarrow> 'g sampler \<Rightarrow> real \<Rightarrow> real \<Rightarrow> 'g \<Rightarrow> error + real \<times> 'g" where
  "ffPoint fsolve normalvariate Rey rr g =
     (if Rey \<ge> 4000 then
        (case ff fsolve Rey rr True of Inl e \<Rightarrow> Inl e | Inr f \<Rightarrow> Inr (f, g))
      else if Rey \<le> 2000 then
        (case ff fsolve Rey rr False of Inl e \<Rightarrow> Inl e | Inr f \<Rightarrow> Inr (f, g))
      else
        (case ff fsolve 4000 rr True of
           Inl e \<Rightarrow> Inl e
         | Inr CBff \<Rightarrow>
             (case ff fsolve 2000 rr False of
                Inl e \<Rightarrow> Inl e
              | Inr Lamff \<Rightarrow>
                  (let mean = (CBff + Lamff) / 2;
                       sig = 0.2 * mean
                   in Inr (normalvariate mean sig g)))))"

section \<open>Moody diagram (hw5a.plotMoody, hw5b.PlotPoint)\<close>

text \<open>
  \<open>numpy.logspace(start, stop, num)\<close>: ten to the power of \<open>num\<close> evenly spaced
  exponents, \<open>arange(0, num) * step + start\<close> with \<open>step = (stop - start)/(num - 1)\<close>,
  both ends included.
\<close>

definition logspace :: "real \<Rightarrow> real \<Rightarrow> nat \<Rightarrow> real list" where
  "logspace start stop num =
     map (\<lambda>i. 10 powr (real i * ((stop - start) / real (num - 1)) + start)) [0..<num]"

text \<open>
  The plotting toolkit is a black box that draws what it is told, so its state is the
  record of the calls made: pyplot holds the open figures, the current one first, and
  each figure the calls that drew into it, in order. A drawing call with no open
  figure opens one of the default size. Formatted numbers (\<open>f"{v:.2e}"\<close>) come from
  a formatting function that is a parameter.
\<close>

datatype call =
    Loglog "real list" "real list" string
  | Annotate "real \<times> real" string
  | Xlim real real
  | Ylim real real
  | Xlabel string nat
  | Ylabel string nat
  | Text real real string nat nat
  | Tick_params "(string \<times> string) list"
  | Set_minor_formatter string string
  | Grid string
  | Plot real real string real string string "string option"
  | Legend string string

record figure =
  figsize :: "real \<times> real"
  calls :: "call list"

record pyplot =
  figures :: "figure list"
  show_count :: nat

definition new_figure :: "real \<times> real \<Rightarrow> pyplot \<Rightarrow> pyplot" where
  "new_figure sz plt = plt\<lparr>figures := \<lparr>figsize = sz, calls = []\<rparr> # figures plt\<rparr>"

definition draw :: "call \<Rightarrow> pyplot \<Rightarrow> pyplot" where
  "draw c plt =
     (case figures plt of
        [] \<Rightarrow> plt\<lparr>figures := [\<lparr>figsize = (6.4, 4.8), calls = [c]\<rparr>]\<rparr>
      | fig # figs \<Rightarrow> plt\<lparr>figures := fig\<lparr>calls := calls fig @ [c]\<rparr> # figs\<rparr>)"

definition plt_show :: "pyplot \<Rightarrow> pyplot" where
  "plt_show plt = plt\<lparr>show_count := Suc (show_count plt)\<rparr>"

text \<open>A list comprehension whose body may raise: the first exception ends it.\<close>

fun list_comp :: "('a \<Rightarrow> error + 'b) \<Rightarrow> 'a list \<Rightarrow> error + 'b list" where
  "list_comp f [] = Inr []"
| "list_comp f (a # as) =
     (case f a of
        Inl e \<Rightarrow> Inl e
      | Inr b \<Rightarrow> (case list_comp f as of Inl e \<Rightarrow> Inl e | Inr bs \<Rightarrow> Inr (b # bs)))"

text \<open>The arrays of steps 1 and 2 of \<open>plotMoody\<close>.\<close>

definition ReValsCB :: "real list" where
  "ReValsCB = logspace (log 10 4000) (log 10 100000000) 100"

definition ReValsL :: "real list" where
  "ReValsL = logspace (log 10 600.0) (log 10 2000.0) 20"

definition ReValsTrans :: "real list" where
  "ReValsTrans = logspace (log 10 2000.0) (log 10 4000.0) 50"

definition rrVals :: "real list" where
  "rrVals = [0, 0.000001, 0.000005, 0.00001, 0.00005, 0.0001, 0.0002, 0.0004, 0.0006,
             0.0008, 0.001, 0.002, 0.004, 0.006, 0.008, 0.015, 0.02, 0.03, 0.04, 0.05]"

text \<open>
  \<open>plotMoody\<close>. The rows \<open>ffCB[nRelR]\<close> have the 100 entries of \<open>ReValsCB\<close> and
  \<open>nRelR\<close> stays below the number of rows, which is that of \<open>rrVals\<close>, so that no index
  of step 5 is out of range. The Reynolds numbers passed to \<open>ff\<close> here are numpy
  floats, for which a division by zero would give \<open>inf\<close> instead of raising; none of
  them is zero (lemma \<open>logspace_pos\<close>), so that the difference is never met. The
  parameter \<open>clear_plot\<close> is accepted as in the source.
\<close>

definition plotMoody ::
  "solver \<Rightarrow> (real \<Rightarrow> string) \<Rightarrow> bool \<Rightarrow> real \<times> real \<Rightarrow> string \<Rightarrow> real \<Rightarrow> string \<Rightarrow> string \<Rightarrow>
   string option \<Rightarrow> bool \<Rightarrow> pyplot \<Rightarrow> error + pyplot" where
  "plotMoody fsolve fmt2e plotPoint pt marker markersize markeredgecolor markerfacecolor
     label clear_plot plt =
     (case list_comp (\<lambda>Rey. ff fsolve Rey 0 False) ReValsL of
        Inl e \<Rightarrow> Inl e
      | Inr ffLam \<Rightarrow>
     (case list_comp (\<lambda>Rey. ff fsolve Rey 0 False) ReValsTrans of
        Inl e \<Rightarrow> Inl e
      | Inr ffTrans \<Rightarrow>
     (case list_comp (\<lambda>rr. list_comp (\<lambda>Rey. ff fsolve Rey rr True) ReValsCB) rrVals of
        Inl e \<Rightarrow> Inl e
      | Inr ffCB \<Rightarrow>
          (let plt1 = new_figure (10, 8) plt;
               plt2 = draw (Loglog ReValsL ffLam ''b-'') plt1;
               plt3 = draw (Loglog ReValsTrans ffTrans ''b--'') plt2;
               plt4 = foldl (\<lambda>p nRelR.
                        draw (Annotate (last ReValsCB, last (ffCB ! nRelR)) (fmt2e (rrVals ! nRelR)))
                          (draw (Loglog ReValsCB (ffCB ! nRelR) ''k-'') p))
                        plt3 [0..<length ffCB];
               plt5 = draw (Xlim 600 100000000) plt4;
               plt6 = draw (Ylim 0.008 0.10) plt5;
               plt7 = draw (Xlabel ''Reynolds number $Re$'' 16) plt6;
               plt8 = draw (Ylabel ''Friction factor $f$'' 16) plt7;
               plt9 = draw (Text 250000000 0.02
                        (''Relative roughness $'' @ [CHR 0x5C] @ ''frac{'' @ [CHR 0x5C] @ ''epsilon}{d}$'')
                        90 16) plt8;
               plt10 = draw (Tick_params [(''axis'', ''both''), (''which'', ''both''),
                         (''direction'', ''in''), (''top'', ''True''), (''right'', ''True''),
                         (''labelsize'', ''12'')]) plt9;
               plt11 = draw (Tick_params [(''axis'', ''both''), (''grid_linewidth'', ''1''),
                         (''grid_linestyle'', ''solid''), (''grid_alpha'', ''0.5'')]) plt10;
               plt12 = draw (Tick_params [(''axis'', ''y''), (''which'', ''minor'')]) plt11;
               plt13 = draw (Set_minor_formatter ''y'' ''%.3f'') plt12;
               plt14 = draw (Grid ''both'') plt13
           in if plotPoint then
                Inr (draw (Plot (fst pt) (snd pt) marker markersize markeredgecolor
                             markerfacecolor label) plt14)
              else Inr plt14))))"

text \<open>\<open>PlotPoint(points)\<close>, each point a tuple \<open>(Re, f, is_transition, rr)\<close>.\<close>

definition PlotPoint ::
  "solver \<Rightarrow> (real \<Rightarrow> string) \<Rightarrow> (real \<times> real \<times> bool \<times> real) list \<Rightarrow> pyplot \<Rightarrow> error + pyplot" where
  "PlotPoint fsolve fmt2e points plt =
     (case plotMoody fsolve fmt2e False (0, 0) ''o'' 10 ''red'' ''none'' None True plt of
        Inl e \<Rightarrow> Inl e
      | Inr plt1 \<Rightarrow>
          (let plt2 = foldl (\<lambda>p (Rey, f, is_transition, rr).
                        (let marker = (if is_transition then ''^'' else ''o'');
                             label = ''Re='' @ fmt2e Rey @ '', rr='' @ fmt2e rr
                         in draw (Plot Rey f marker 10 ''red'' ''none'' (Some label)) p))
                        plt1 points;
               plt3 = draw (Legend ''Re, rr - First to Last'' ''best'') plt2
           in Inr (plt_show plt3)))"




text \<open>
  The calls \<open>plotMoody\<close> makes on its new figure, from step 5 to \<open>plt.grid\<close>, as one
  list: a function of the three computed arrays of friction factors.
\<close>

definition base_calls :: "(real \<Rightarrow> string) \<Rightarrow> real list \<Rightarrow> real list \<Rightarrow> real list list \<Rightarrow> call list" where
  "base_calls fmt2e ffLam ffTrans ffCB =
     [Loglog ReValsL ffLam ''b-'', Loglog ReValsTrans ffTrans ''b--''] @
     concat (map (\<lambda>nRelR. [Loglog ReValsCB (ffCB ! nRelR) ''k-'',
        Annotate (last ReValsCB, last (ffCB ! nRelR)) (fmt2e (rrVals ! nRelR))]) [0..<length ffCB]) @
     [Xlim 600 100000000, Ylim 0.008 0.10,
      Xlabel ''Reynolds number $Re$'' 16, Ylabel ''Friction factor $f$'' 16,
      Text 250000000 0.02
        (''Relative roughness $'' @ [CHR 0x5C] @ ''frac{'' @ [CHR 0x5C] @ ''epsilon}{d}$'') 90 16,
      Tick_params [(''axis'', ''both''), (''which'', ''both''),
                         (''direction'', ''in''), (''top'', ''True''), (''right'', ''True''),
                         (''labelsize'', ''12'')],
      Tick_params [(''axis'', ''both''), (''grid_linewidth'', ''1''),
                         (''grid_linestyle'', ''solid''), (''grid_alpha'', ''0.5'')],
      Tick_params [(''axis'', ''y''), (''which'', ''minor'')],
      Set_minor_formatter ''y'' ''%.3f'', Grid ''both'']"

text \<open>
  Two concrete stand-ins for the library calls, used to evaluate the engine on
  concrete inputs: a solver that gives up at once, returning its initial guess with
  status 5 (no progress), and a sampler that returns the mean and counts the draws.
\<close>

definition stalled_solver :: solver where
  "stalled_solver func x0 = Inr \<lparr>sol_x = [x0], status = 5\<rparr>"

definition mean_sampler :: "nat sampler" where
  "mean_sampler mu sigma g = (mu, Suc g)"

section \<open>Properties of the engine\<close>

lemma max_guess: "max (0.02::real) 0.00001 = 0.02"
  by simp

lemma ff_stalled: "ff stalled_solver Rey rr True = Inr 0.02"
  by (simp add: ff_def stalled_solver_def)

text \<open>
  C2: for \<open>0 < Rey \<le> 2000\<close> the laminar branch, reached through \<open>ff\<close> with
  \<open>CBEQN=False\<close> or through \<open>ffPoint\<close>, returns \<open>64/Rey\<close>; the solver is not consulted
  (any two solvers give the same result), the generator is left untouched, and the
  result is the same for every roughness.
\<close>

theorem laminar_exact:
  "0 < Rey \<and> Rey \<le> 2000 \<Longrightarrow>
     ff fsolve Rey rr False = Inr (64 / Rey) \<and>
     ffPoint fsolve normalvariate Rey rr g = Inr (64 / Rey, g) \<and>
     ff fsolve' Rey rr' False = ff fsolve Rey rr False \<and>
     ffPoint fsolve' normalvariate' Rey rr' g = ffPoint fsolve normalvariate Rey rr g"
  by (simp add: ff_def ffPoint_def)

theorem laminar_exact_witness:
  "(0::real) < 1000 \<and> (1000::real) \<le> 2000 \<and>
   ff stalled_solver 1000 0 False = Inr (64 / 1000) \<and>
   ffPoint stalled_solver mean_sampler 1000 0 (0::nat) = Inr (64 / 1000, 0)"
  using laminar_exact [of 1000 stalled_solver 0 mean_sampler "0::nat"]
  by simp

text \<open>
  C1: for \<open>Rey > 0\<close> and \<open>rr\<close> in \<open>[0, 0.05]\<close>, \<open>ffPoint\<close> dispatches by regime.
  For \<open>Rey \<ge> 4000\<close> it returns the result of \<open>ff(Rey, rr, CBEQN=True)\<close>, for
  \<open>Rey \<le> 2000\<close> the result of \<open>ff(Rey, rr)\<close>, in both cases leaving the generator
  as it was. Only for \<open>2000 < Rey < 4000\<close> is the result the sampler's draw; outside
  that interval the result is the same whatever the sampler is.
\<close>

theorem ffPoint_dispatch:
  "0 < Rey \<and> 0 \<le> rr \<and> rr \<le> 0.05 \<Longrightarrow>
     (4000 \<le> Rey \<longrightarrow>
        ffPoint fsolve normalvariate Rey rr g =
          (case ff fsolve Rey rr True of Inl e \<Rightarrow> Inl e | Inr f \<Rightarrow> Inr (f, g))) \<and>
     (Rey \<le> 2000 \<longrightarrow>
        ffPoint fsolve normalvariate Rey rr g =
          (case ff fsolve Rey rr False of Inl e \<Rightarrow> Inl e | Inr f \<Rightarrow> Inr (f, g))) \<and>
     (2000 < Rey \<and> Rey < 4000 \<longrightarrow>
        ffPoint fsolve normalvariate Rey rr g =
          (case ff fsolve 4000 rr True of
             Inl e \<Rightarrow> Inl e
           | Inr CBff \<Rightarrow>
               Inr (normalvariate ((CBff + 64 / 2000) / 2)
                      (0.2 * ((CBff + 64 / 2000) / 2)) g))) \<and>
     (\<not> (2000 < Rey \<and> Rey < 4000) \<longrightarrow>
        ffPoint fsolve normalvariate' Rey rr g = ffPoint fsolve normalvariate Rey rr g)"
  by (simp add: ffPoint_def ff_def Let_def split: sum.splits)

theorem ffPoint_dispatch_witness:
  "(0::real) < 5000 \<and> (0::real) \<le> 0 \<and> (0::real) \<le> 0.05 \<and> (4000::real) \<le> 5000 \<and>
   ffPoint stalled_solver mean_sampler 5000 0 (7::nat) = Inr (0.02, 7) \<and>
   (0::real) < 1000 \<and> (1000::real) \<le> 2000 \<and>
   ffPoint stalled_solver mean_sampler 1000 0 (7::nat) = Inr (64 / 1000, 7) \<and>
   (2000::real) < 3000 \<and> (3000::real) < 4000 \<and>
   ffPoint stalled_solver mean_sampler 3000 0 (7::nat) = Inr (0.026, 8)"
  using ffPoint_dispatch [of 5000 0 stalled_solver mean_sampler "7::nat"]
    ffPoint_dispatch [of 1000 0 stalled_solver mean_sampler "7::nat"]
    ffPoint_dispatch [of 3000 0 stalled_solver mean_sampler "7::nat"]
  by (simp add: ff_def stalled_solver_def mean_sampler_def)

text \<open>
  C4: for \<open>2000 < Rey < 4000\<close> (and \<open>rr\<close> in \<open>[0, 0.05]\<close>) the value returned by
  \<open>ffPoint\<close> is one call of \<open>normalvariate\<close> with mean \<open>(CBf + Lf)/2\<close> and standard
  deviation \<open>0.2\<close> times that mean, where \<open>CBf\<close> is \<open>ff(4000, rr, CBEQN=True)\<close> and
  \<open>Lf\<close> is \<open>ff(2000, rr) = 64/2000\<close>; an exception of the turbulent call propagates.
  Two Reynolds numbers inside the interval give the same call, hence the same
  distribution.
\<close>

theorem transitional_draw:
  "2000 < Rey \<and> Rey < 4000 \<and> 0 \<le> rr \<and> rr \<le> 0.05 \<Longrightarrow>
     ff fsolve 2000 rr False = Inr (64 / 2000) \<and>
     ffPoint fsolve normalvariate Rey rr g =
       (case ff fsolve 4000 rr True of
          Inl e \<Rightarrow> Inl e
        | Inr CBf \<Rightarrow>
            Inr (normalvariate ((CBf + 64 / 2000) / 2) (0.2 * ((CBf + 64 / 2000) / 2)) g)) \<and>
     (2000 < Rey' \<and> Rey' < 4000 \<longrightarrow>
        ffPoint fsolve normalvariate Rey' rr g = ffPoint fsolve normalvariate Rey rr g)"
  by (simp add: ffPoint_def ff_def Let_def split: sum.splits)

theorem transitional_draw_witness:
  "(2000::real) < 3000 \<and> (3000::real) < 4000 \<and> (0::real) \<le> 0 \<and> (0::real) \<le> 0.05 \<and>
   ffPoint stalled_solver mean_sampler 3000 0 (0::nat) = Inr (0.026, 1) \<and>
   ffPoint stalled_solver mean_sampler 2500 0 (0::nat) = Inr (0.026, 1)"
  using transitional_draw [of 3000 0 stalled_solver mean_sampler "0::nat" 2500]
  by (simp add: ff_stalled mean_sampler_def)

section \<open>Error handling of the engine\<close>




text \<open>
  C6, as stated, fails: for a negative Reynolds number no exception is raised; the
  laminar branch computes \<open>64/Rey\<close>.
\<close>

theorem nonpositive_Re_counterexample:
  "(-1::real) \<le> 0 \<and> ffPoint stalled_solver mean_sampler (-1) 0 (0::nat) = Inr (-64, 0)"
  by (simp add: ffPoint_def ff_def)

text \<open>
  C6, amended: there is no validation of \<open>Rey\<close>. For \<open>Rey \<le> 0\<close> the laminar branch is
  taken; at \<open>Rey = 0\<close> the division \<open>64/Rey\<close> itself raises ZeroDivisionError, and for
  \<open>Rey < 0\<close> the (negative) value \<open>64/Rey\<close> is returned.
\<close>

theorem nonpositive_Re_laminar:
  "Rey \<le> 0 \<Longrightarrow>
     ff fsolve Rey rr False = (if Rey = 0 then Inl ZeroDivisionError else Inr (64 / Rey)) \<and>
     ffPoint fsolve normalvariate Rey rr g =
       (if Rey = 0 then Inl ZeroDivisionError else Inr (64 / Rey, g))"
  by (simp add: ffPoint_def ff_def)

theorem nonpositive_Re_laminar_witness:
  "(0::real) \<le> 0 \<and>
   ff stalled_solver 0 0 False = Inl ZeroDivisionError \<and>
   ffPoint stalled_solver mean_sampler 0 0 (0::nat) = Inl ZeroDivisionError \<and>
   (-2::real) \<le> 0 \<and>
   ffPoint stalled_solver mean_sampler (-2) 0 (0::nat) = Inr (-32, 0)"
  using nonpositive_Re_laminar [of 0 stalled_solver 0 mean_sampler "0::nat"]
    nonpositive_Re_laminar [of "-2" stalled_solver 0 mean_sampler "0::nat"]
  by simp

text \<open>
  C7, as stated, fails: a roughness of 1, far outside \<open>[0, 0.05]\<close>, is accepted and a
  friction factor is returned.
\<close>

theorem roughness_range_counterexample:
  "(0.05::real) < 1 \<and>
   ffPoint stalled_solver mean_sampler 1000 1 (0::nat) = Inr (64 / 1000, 0) \<and>
   ff stalled_solver 5000 1 True = Inr 0.02"
  by (simp add: ffPoint_def ff_def stalled_solver_def)

text \<open>
  C7, amended: the engine does not validate \<open>rr\<close>. For \<open>rr\<close> outside \<open>[0, 0.05]\<close> it
  neither raises nor clamps: the laminar branch returns \<open>64/Rey\<close> (for \<open>Rey \<noteq> 0\<close>)
  whatever \<open>rr\<close> is, and the turbulent branch hands the solver the Colebrook residual
  built from the given \<open>rr\<close> and returns the first component of its answer.
\<close>

theorem roughness_not_validated:
  "rr < 0 \<or> 0.05 < rr \<Longrightarrow>
     (Rey \<noteq> 0 \<longrightarrow> ff fsolve Rey rr False = Inr (64 / Rey)) \<and>
     (Rey \<noteq> 0 \<and> Rey \<le> 2000 \<longrightarrow> ffPoint fsolve normalvariate Rey rr g = Inr (64 / Rey, g)) \<and>
     (fsolve (cb Rey rr) (max 0.02 0.00001) = Inr \<lparr>sol_x = r # rs, status = s\<rparr> \<longrightarrow>
        ff fsolve Rey rr True = Inr r \<and>
        (4000 \<le> Rey \<longrightarrow> ffPoint fsolve normalvariate Rey rr g = Inr (r, g)))"
  by (simp add: ffPoint_def ff_def)

theorem roughness_not_validated_witness:
  "(0.05::real) < 2 \<and> (1000::real) \<noteq> 0 \<and> (1000::real) \<le> 2000 \<and>
   ff stalled_solver 1000 2 False = Inr (64 / 1000) \<and>
   ffPoint stalled_solver mean_sampler 1000 2 (0::nat) = Inr (64 / 1000, 0) \<and>
   stalled_solver (cb 5000 2) (max 0.02 0.00001) = Inr \<lparr>sol_x = 0.02 # [], status = 5\<rparr> \<and>
   (4000::real) \<le> 5000 \<and>
   ff stalled_solver 5000 2 True = Inr 0.02 \<and>
   ffPoint stalled_solver mean_sampler 5000 2 (0::nat) = Inr (0.02, 0)"
  using roughness_not_validated [of 2 1000 stalled_solver mean_sampler "0::nat"]
    roughness_not_validated [of 2 5000 stalled_solver mean_sampler "0::nat" "0.02" "[]" 5]
  by (simp add: stalled_solver_def)

section \<open>The Colebrook residual\<close>

text \<open>
  Facts about the function that \<open>ff\<close> hands to the root-finder, over the reals. The
  turbulent branch depends on the root-finder only through its answer for the residual
  \<open>cb Rey rr\<close> and the initial guess 0.02. At a positive \<open>f\<close> the residual is the
  left-hand side of the Colebrook relation. For positive arguments it decreases strictly
  in \<open>f\<close> and weakly in \<open>Rey\<close>, so that an exact positive root is unique and does
  not increase with \<open>Rey\<close>. These facts describe the equation; which value the
  root-finder returns is not part of the model.
\<close>

lemma ff_solver_call:
  "ff fsolve Rey rr True = ff (\<lambda>func x0. fsolve (cb Rey rr) 0.02) Rey rr True"
  by (simp add: ff_def)

lemma cb_positive:
  "0 < f \<Longrightarrow> cb Rey rr f = 1 / sqrt f + 2 * log 10 (rr / 3.7 + 2.51 / (Rey * sqrt f))"
  by (simp add: cb_def)

lemma cb_strict_mono:
  assumes Re: "0 < Rey1" "Rey1 \<le> Rey2" and rr: "0 \<le> rr" and f: "0 < f1" "f1 < f2"
  shows "cb Rey2 rr f2 < cb Rey1 rr f1"
proof -
  have s: "0 < sqrt f1" "sqrt f1 < sqrt f2" using f by simp_all
  have inv: "1 / sqrt f2 < 1 / sqrt f1"
    using s by (simp add: frac_less2)
  have prod: "Rey1 * sqrt f1 < Rey2 * sqrt f2"
    using Re s by (intro mult_le_less_imp_less) simp_all
  have ppos: "0 < Rey1 * sqrt f1" using Re s by simp
  have q: "2.51 / (Rey2 * sqrt f2) < 2.51 / (Rey1 * sqrt f1)"
    using prod ppos by (simp add: frac_less2)
  have apos: "0 < rr / 3.7 + 2.51 / (Rey2 * sqrt f2)"
    using rr prod ppos by (intro add_nonneg_pos) simp_all
  have lt: "rr / 3.7 + 2.51 / (Rey2 * sqrt f2) < rr / 3.7 + 2.51 / (Rey1 * sqrt f1)"
    using q by simp
  have "log 10 (rr / 3.7 + 2.51 / (Rey2 * sqrt f2)) < log 10 (rr / 3.7 + 2.51 / (Rey1 * sqrt f1))"
    using apos lt by simp
  with inv show ?thesis
    using f by (simp add: cb_def)
qed

lemma cb_root_antitone:
  assumes "0 < Rey1" "Rey1 \<le> Rey2" "0 \<le> rr" "0 < f1" "0 < f2"
    and "cb Rey1 rr f1 = 0" "cb Rey2 rr f2 = 0"
  shows "f2 \<le> f1"
proof (rule ccontr)
  assume "\<not> f2 \<le> f1"
  then have "f1 < f2" by simp
  from cb_strict_mono [OF assms(1-4) this] assms(6,7) show False by simp
qed

section \<open>Properties of the Moody diagram\<close>

lemma list_comp_Inr:
  "(\<And>a. a \<in> set as \<Longrightarrow> f a = Inr (h a)) \<Longrightarrow> list_comp f as = Inr (map h as)"
  by (induction as) simp_all


lemma logspace_pos: "v \<in> set (logspace start stop num) \<Longrightarrow> 0 < v"
  by (auto simp: logspace_def)




lemma draw_current:
  "figures plt = fig # figs \<Longrightarrow>
     draw c plt = plt\<lparr>figures := fig\<lparr>calls := calls fig @ [c]\<rparr> # figs\<rparr>"
  by (simp add: draw_def)

lemma loop_draw:
  "figures plt = fig # figs \<Longrightarrow>
     foldl (\<lambda>p n. draw (B n) (draw (A n) p)) plt ns =
       plt\<lparr>figures := fig\<lparr>calls := calls fig @ concat (map (\<lambda>n. [A n, B n]) ns)\<rparr> # figs\<rparr>"
proof (induction ns arbitrary: plt fig)
  case Nil
  then show ?case by simp
next
  case (Cons n ns)
  let ?fig = "fig\<lparr>calls := calls fig @ [A n, B n]\<rparr>"
  have step: "draw (B n) (draw (A n) plt) = plt\<lparr>figures := ?fig # figs\<rparr>"
    using Cons.prems by (simp add: draw_def)
  have "figures (plt\<lparr>figures := ?fig # figs\<rparr>) = ?fig # figs" by simp
  from Cons.IH [OF this] show ?case by (simp add: step)
qed




lemma plotMoody_Inr:
  assumes "list_comp (\<lambda>Rey. ff fsolve Rey 0 False) ReValsL = Inr ffLam"
    and "list_comp (\<lambda>Rey. ff fsolve Rey 0 False) ReValsTrans = Inr ffTrans"
    and "list_comp (\<lambda>rr. list_comp (\<lambda>Rey. ff fsolve Rey rr True) ReValsCB) rrVals = Inr ffCB"
  shows "plotMoody fsolve fmt2e plotPoint pt marker markersize markeredgecolor markerfacecolor
           label clear_plot plt =
         Inr (plt\<lparr>figures := \<lparr>figsize = (10, 8),
                calls = base_calls fmt2e ffLam ffTrans ffCB @
                  (if plotPoint then [Plot (fst pt) (snd pt) marker markersize markeredgecolor
                             markerfacecolor label] else [])\<rparr> # figures plt\<rparr>)"
proof -
  let ?p3 = "draw (Loglog ReValsTrans ffTrans ''b--'')
               (draw (Loglog ReValsL ffLam ''b-'') (new_figure (10, 8) plt))"
  have p3: "figures ?p3 =
      \<lparr>figsize = (10, 8), calls = [Loglog ReValsL ffLam ''b-'', Loglog ReValsTrans ffTrans ''b--'']\<rparr>
        # figures plt"
    by (simp add: draw_def new_figure_def)
  show ?thesis
    unfolding plotMoody_def assms sum.case Let_def loop_draw [OF p3]
    by (simp add: draw_def new_figure_def base_calls_def)
qed









lemma laminar_curve:
  "list_comp (\<lambda>Rey. ff fsolve Rey 0 False) (logspace start stop num) =
     Inr (map (\<lambda>Rey. 64 / Rey) (logspace start stop num))"
proof (rule list_comp_Inr)
  fix a assume "a \<in> set (logspace start stop num)"
  then have "0 < a" by (rule logspace_pos)
  then show "ff fsolve a 0 False = Inr (64 / a)" by (simp add: ff_def)
qed


lemma turbulent_rows:
  assumes "\<forall>func x0. \<exists>out r rs. fsolve func x0 = Inr out \<and> sol_x out = r # rs"
  shows "list_comp (\<lambda>rr. list_comp (\<lambda>Rey. ff fsolve Rey rr True) ReValsCB) rrVals =
           Inr (map (\<lambda>rr. map (\<lambda>Rey. projr (ff fsolve Rey rr True)) ReValsCB) rrVals)"
proof -
  have one: "ff fsolve Rey rr True = Inr (projr (ff fsolve Rey rr True))" for Rey rr
  proof -
    from assms obtain out r rs
      where "fsolve (cb Rey rr) (max 0.02 0.00001) = Inr out" and "sol_x out = r # rs"
      by blast
    then show ?thesis by (simp add: ff_def)
  qed
  have row: "list_comp (\<lambda>Rey. ff fsolve Rey rr True) ReValsCB =
      Inr (map (\<lambda>Rey. projr (ff fsolve Rey rr True)) ReValsCB)" for rr
    by (rule list_comp_Inr) (rule one)
  show ?thesis by (rule list_comp_Inr) (rule row)
qed



text \<open>
  \<open>PlotPoint\<close> draws into the figure that \<open>plotMoody\<close> opens. The figures that were open
  before are all still there afterwards, and the chart is shown once.
\<close>

lemma plotMoody_succeeds:
  assumes "\<forall>func x0. \<exists>out r rs. fsolve func x0 = Inr out \<and> sol_x out = r # rs"
  shows "\<exists>fig. plotMoody fsolve fmt2e plotPoint pt marker markersize markeredgecolor
           markerfacecolor label clear_plot plt = Inr (plt\<lparr>figures := fig # figures plt\<rparr>)"
proof -
  have lam: "list_comp (\<lambda>Rey. ff fsolve Rey 0 False) ReValsL =
      Inr (map (\<lambda>Rey. 64 / Rey) ReValsL)"
    unfolding ReValsL_def by (rule laminar_curve)
  have trans: "list_comp (\<lambda>Rey. ff fsolve Rey 0 False) ReValsTrans =
      Inr (map (\<lambda>Rey. 64 / Rey) ReValsTrans)"
    unfolding ReValsTrans_def by (rule laminar_curve)
  from plotMoody_Inr [OF lam trans turbulent_rows [OF assms]] show ?thesis
    by blast
qed

lemma draw_keeps:
  "figures plt = fig # figs \<Longrightarrow> \<exists>fig'. figures (draw c plt) = fig' # figs"
  by (simp add: draw_def)

lemma points_keep:
  "figures plt = fig # figs \<Longrightarrow>
     \<exists>fig'. figures (foldl (\<lambda>p x. draw (mk x) p) plt xs) = fig' # figs"
proof (induction xs arbitrary: plt fig)
  case Nil
  then show ?case by simp
next
  case (Cons x xs)
  from draw_keeps [OF Cons.prems] obtain fig' where "figures (draw (mk x) plt) = fig' # figs"
    by blast
  from Cons.IH [OF this] show ?case by simp
qed

lemma PlotPoint_keeps_figures:
  assumes "\<forall>func x0. \<exists>out r rs. fsolve func x0 = Inr out \<and> sol_x out = r # rs"
  shows "\<exists>plt' fig. PlotPoint fsolve fmt2e points plt = Inr plt' \<and>
           figures plt' = fig # figures plt \<and> show_count plt' = Suc (show_count plt)"
proof -
  from plotMoody_succeeds [OF assms] obtain fig0 where
    run: "plotMoody fsolve fmt2e False (0, 0) ''o'' 10 ''red'' ''none'' None True plt =
      Inr (plt\<lparr>figures := fig0 # figures plt\<rparr>)"
    by blast
  let ?plt1 = "plt\<lparr>figures := fig0 # figures plt\<rparr>"
  let ?mk = "\<lambda>(Rey, f, is_transition, rr).
      Plot Rey f (if is_transition then ''^'' else ''o'') 10 ''red'' ''none''
        (Some (''Re='' @ fmt2e Rey @ '', rr='' @ fmt2e rr))"
  let ?plt2 = "foldl (\<lambda>p x. draw (?mk x) p) ?plt1 points"
  have "figures ?plt1 = fig0 # figures plt" by simp
  from points_keep [OF this] obtain fig1 where f1: "figures ?plt2 = fig1 # figures plt"
    by blast
  from draw_keeps [OF f1] obtain fig2 where
    f2: "figures (draw (Legend ''Re, rr - First to Last'' ''best'') ?plt2) = fig2 # figures plt"
    by blast
  have cnt_draw: "show_count (draw c p) = show_count p" for c p
    by (simp add: draw_def split: list.splits)
  have cnt_fold: "show_count (foldl (\<lambda>p x. draw (mk x) p) p xs) = show_count p"
    for p and mk :: "real \<times> real \<times> bool \<times> real \<Rightarrow> call" and xs
    by (induction xs arbitrary: p) (simp_all add: cnt_draw)
  have pp: "PlotPoint fsolve fmt2e points plt =
      Inr (plt_show (draw (Legend ''Re, rr - First to Last'' ''best'') ?plt2))"
    unfolding PlotPoint_def Let_def run sum.case
    by (simp add: case_prod_unfold)
  show ?thesis
    unfolding pp using f2 by (simp add: plt_show_def cnt_draw cnt_fold)
qed

text \<open>
  C10: the parameter \<open>clear_plot\<close> of \<open>plotMoody\<close> has no effect. Two calls that differ
  only in it, from the same pyplot state, give the same result: the same exception or the
  same new state. \<open>PlotPoint\<close> passes \<open>clear_plot=True\<close>, and its result is
  what it would be had it passed \<open>False\<close>.
\<close>

theorem clear_plot_ignored:
  "plotMoody fsolve fmt2e plotPoint pt marker markersize markeredgecolor markerfacecolor
     label clear_plot plt =
   plotMoody fsolve fmt2e plotPoint pt marker markersize markeredgecolor markerfacecolor
     label clear_plot' plt \<and>
   PlotPoint fsolve fmt2e points plt =
     (case plotMoody fsolve fmt2e False (0, 0) ''o'' 10 ''red'' ''none'' None False plt of
        Inl e \<Rightarrow> Inl e
      | Inr plt1 \<Rightarrow>
          Inr (plt_show (draw (Legend ''Re, rr - First to Last'' ''best'')
            (foldl (\<lambda>p (Rey, f, is_transition, rr).
                draw (Plot Rey f (if is_transition then ''^'' else ''o'') 10 ''red'' ''none''
                  (Some (''Re='' @ fmt2e Rey @ '', rr='' @ fmt2e rr))) p)
              plt1 points))))"
proof -
  have eq: "plotMoody fsolve fmt2e pP p m ms mec mfc l c plt =
      plotMoody fsolve fmt2e pP p m ms mec mfc l c' plt" for pP p m ms mec mfc l c c'
    by (simp add: plotMoody_def)
  have call: "plotMoody fsolve fmt2e False (0, 0) ''o'' 10 ''red'' ''none'' None True plt =
      plotMoody fsolve fmt2e False (0, 0) ''o'' 10 ''red'' ''none'' None False plt"
    by (rule eq)
  have "PlotPoint fsolve fmt2e points plt =
     (case plotMoody fsolve fmt2e False (0, 0) ''o'' 10 ''red'' ''none'' None False plt of
        Inl e \<Rightarrow> Inl e
      | Inr plt1 \<Rightarrow>
          Inr (plt_show (draw (Legend ''Re, rr - First to Last'' ''best'')
            (foldl (\<lambda>p (Rey, f, is_transition, rr).
                draw (Plot Rey f (if is_transition then ''^'' else ''o'') 10 ''red'' ''none''
                  (Some (''Re='' @ fmt2e Rey @ '', rr='' @ fmt2e rr))) p)
              plt1 points))))"
    unfolding PlotPoint_def Let_def call by (rule refl)
  with eq show ?thesis by blast
qed

end
